theory Spec2Isabelle
  imports Main "HOL-Library.Word"
begin

section \<open>Data model\<close>

text \<open>
  The bridge of \<^verbatim>\<open>BayesianAstro/cpp\<close>: \<^verbatim>\<open>JuliaRuntime\<close> (lifecycle of the embedded
  interpreter and the pipeline invocation) and the part of \<^verbatim>\<open>BayesianAstroInstance\<close>
  that drives it. C \<^verbatim>\<open>int\<close> and \<^verbatim>\<open>pcl_enum\<close> are 32-bit words read with \<open>sint\<close>;
  a C \<^verbatim>\<open>float\<close> is its 32-bit pattern, only ever copied and handed to a formatter;
  \<^verbatim>\<open>std::string\<close> and the host's \<^verbatim>\<open>String\<close> are byte lists.
\<close>

type_synonym c_int = "32 word"
type_synonym c_float = "32 word"

text \<open>\<^verbatim>\<open>BAFusionStrategy\<close> (BayesianAstroParameters.h): the host's zero-based items.\<close>

definition BA_MLE :: c_int where "BA_MLE = 0"
definition BA_ConfidenceWeighted :: c_int where "BA_ConfidenceWeighted = 1"
definition BA_Lucky :: c_int where "BA_Lucky = 2"
definition BA_MultiScale :: c_int where "BA_MultiScale = 3"
definition BA_NumberOfItems :: c_int where "BA_NumberOfItems = 4"
definition BA_Default :: c_int where "BA_Default = BA_ConfidenceWeighted"

text \<open>
  \<^verbatim>\<open>enum class FusionStrategy : int\<close> (JuliaRuntime.h). A scoped enumeration with a
  fixed underlying type holds every value of that type, so it is the underlying \<^verbatim>\<open>int\<close>.
\<close>

type_synonym FusionStrategy = c_int

definition FS_MLE :: FusionStrategy where "FS_MLE = 1"
definition FS_ConfidenceWeighted :: FusionStrategy where "FS_ConfidenceWeighted = 2"
definition FS_Lucky :: FusionStrategy where "FS_Lucky = 3"
definition FS_MultiScale :: FusionStrategy where "FS_MultiScale = 4"

record ProcessingConfig =
  fusionStrategy :: FusionStrategy
  confidenceThreshold :: c_float
  outlierSigma :: c_float
  tileSizeX :: c_int
  tileSizeY :: c_int
  useGPU :: bool

text \<open>The member initialisers of \<^verbatim>\<open>struct ProcessingConfig\<close>; \<open>0.1f\<close> and \<open>3.0f\<close> as bit patterns.\<close>

definition ProcessingConfig_init :: ProcessingConfig where
  "ProcessingConfig_init =
     \<lparr>fusionStrategy = FS_ConfidenceWeighted, confidenceThreshold = 0x3DCCCCCD,
      outlierSigma = 0x40400000, tileSizeX = 1024, tileSizeY = 1024, useGPU = True\<rparr>"

record ProcessingResult =
  success :: bool
  errorMessage :: string
  fusedImagePath :: string
  confidenceMapPath :: string
  totalPixels :: c_int
  meanConfidence :: c_float
  gaussianPixels :: c_int
  poissonPixels :: c_int
  bimodalPixels :: c_int
  artifactPixels :: c_int

definition ProcessingResult_init :: ProcessingResult where
  "ProcessingResult_init =
     \<lparr>success = False, errorMessage = [], fusedImagePath = [], confidenceMapPath = [],
      totalPixels = 0, meanConfidence = 0, gaussianPixels = 0, poissonPixels = 0,
      bimodalPixels = 0, artifactPixels = 0\<rparr>"

text \<open>The parameters of \<^verbatim>\<open>BayesianAstroInstance\<close>; host strings as their UTF-8 bytes.\<close>

record BayesianAstroInstance =
  p_fusionStrategy :: c_int
  p_inputFiles :: "string list"
  p_outlierSigma :: c_float
  p_confidenceThreshold :: c_float
  p_useGPU :: bool
  p_generateConfidenceMap :: bool
  p_outputDirectory :: string
  p_outputPrefix :: string

text \<open>
  \<^verbatim>\<open>ExecuteGlobal\<close>, \<^verbatim>\<open>// Build config\<close>: a default-constructed config with four
  fields assigned. The strategy is \<^verbatim>\<open>static_cast<FusionStrategy>(p_fusionStrategy + 1)\<close>.
\<close>

definition buildConfig :: "BayesianAstroInstance \<Rightarrow> ProcessingConfig" where
  "buildConfig inst =
     ProcessingConfig_init
       \<lparr>fusionStrategy := p_fusionStrategy inst + 1,
        outlierSigma := p_outlierSigma inst,
        confidenceThreshold := p_confidenceThreshold inst,
        useGPU := p_useGPU inst\<rparr>"

section \<open>Foreign Value Marshaler\<close>

definition dquote :: char where "dquote = CHR 0x22"
definition backslash :: char where "backslash = CHR 0x5C"
definition newline :: char where "newline = CHR 0x0A"

text \<open>\<^verbatim>\<open>std::string::c_str()\<close> read as a C string: the bytes before the first NUL.\<close>

definition c_str :: "string \<Rightarrow> string" where
  "c_str s = takeWhile (\<lambda>c. c \<noteq> CHR 0x00) s"

text \<open>\<^verbatim>\<open>operator<<(int)\<close> and \<^verbatim>\<open>%d\<close>: signed decimal.\<close>

definition digit :: "nat \<Rightarrow> char" where
  "digit d = ''0123456789'' ! d"

fun decimal :: "nat \<Rightarrow> string" where
  "decimal n = (if n < 10 then [digit n] else decimal (n div 10) @ [digit (n mod 10)])"

declare decimal.simps [simp del]

definition showInt :: "int \<Rightarrow> string" where
  "showInt i = (if i < 0 then ''-'' @ decimal (nat (- i)) else decimal (nat i))"

text \<open>
  \<^verbatim>\<open>ProcessStack\<close>, \<^verbatim>\<open>// Build Julia array of input files\<close>: the \<^verbatim>\<open>for\<close> loop over
  \<open>i\<close>, appending to the stream \<open>out\<close>.
\<close>

function filesArrayLoop :: "string list \<Rightarrow> nat \<Rightarrow> string \<Rightarrow> string" where
  "filesArrayLoop inputFiles i out =
     (if i < length inputFiles then
        filesArrayLoop inputFiles (Suc i)
          ((if 0 < i then out @ '', '' else out) @ [dquote] @ inputFiles ! i @ [dquote])
      else out)"
  by pat_completeness auto
termination
  by (relation "measure (\<lambda>(inputFiles, i, out). length inputFiles - i)") auto

declare filesArrayLoop.simps [simp del]

definition filesArrayCmd :: "string list \<Rightarrow> string" where
  "filesArrayCmd inputFiles = filesArrayLoop inputFiles 0 ''String['' @ '']''"

text \<open>
  \<^verbatim>\<open>// Build ProcessingConfig in Julia\<close>. The text that \<^verbatim>\<open>operator<<(float)\<close> produces
  is the C++ library's; it is the parameter \<open>fmt\<close>.
\<close>

definition configCmd :: "(c_float \<Rightarrow> string) \<Rightarrow> ProcessingConfig \<Rightarrow> string" where
  "configCmd fmt config =
     ''ProcessingConfig(''
     @ ''fusion_strategy='' @ showInt (sint (fusionStrategy config)) @ '', ''
     @ ''confidence_threshold='' @ fmt (confidenceThreshold config) @ ''f0, ''
     @ ''outlier_sigma='' @ fmt (outlierSigma config) @ ''f0, ''
     @ ''tile_size=('' @ showInt (sint (tileSizeX config)) @ '', ''
         @ showInt (sint (tileSizeY config)) @ ''), ''
     @ ''use_gpu='' @ (if useGPU config then ''true'' else ''false'')
     @ '')''"

text \<open>\<^verbatim>\<open>// Call process_directory function\<close>.\<close>

definition processCmd :: "(c_float \<Rightarrow> string) \<Rightarrow> string \<Rightarrow> string \<Rightarrow> ProcessingConfig \<Rightarrow> string" where
  "processCmd fmt outputDirectory outputPrefix config =
     ''process_directory(''
     @ [dquote] @ outputDirectory @ ''/'' @ outputPrefix @ [dquote] @ '', ''
     @ ''config='' @ configCmd fmt config
     @ '')''"

section \<open>The embedded interpreter\<close>

text \<open>
  The Julia C API (\<^verbatim>\<open>julia.h\<close>) and the C++ library are not part of the repository.
  They are the parameter \<open>backend\<close>: what the interpreter answers to each call, given
  every effect the process has had on it so far (\<open>trace\<close>). The contract of the API is
  kept: \<^verbatim>\<open>jl_eval_string\<close> and \<^verbatim>\<open>jl_call1\<close> never throw into C++; they return a
  value and leave no pending exception, or return \<^verbatim>\<open>NULL\<close> and leave the raised
  exception pending until \<^verbatim>\<open>jl_exception_clear\<close> or the next call.
\<close>

datatype jl_value = JlBool bool | JlString string | JlObject nat

datatype jl_outcome = Returns jl_value | Raises jl_value

datatype event =
    PutEnv string
  | JlInit
  | JlAtexitHook int
  | JlEvalString string
  | JlCall1 string string
  | JlExceptionClear
  | StderrPrint string

record backend =
  jl_init_ok :: "event list \<Rightarrow> bool"
  jl_eval :: "event list \<Rightarrow> string \<Rightarrow> jl_outcome"
  jl_call :: "event list \<Rightarrow> string \<Rightarrow> string \<Rightarrow> jl_outcome"
  jl_global :: "event list \<Rightarrow> jl_value \<Rightarrow> string \<Rightarrow> jl_value option"
  jl_raw_byte :: "jl_value \<Rightarrow> bool"
  fs_current_path :: "string option"
  fmt_float :: "c_float \<Rightarrow> string"
  fmt_f3 :: "c_float \<Rightarrow> string"

record world =
  jl_started :: bool
  jl_pending :: "jl_value option"
  trace :: "event list"

definition putenv :: "string \<Rightarrow> world \<Rightarrow> world" where
  "putenv kv w = w\<lparr>trace := trace w @ [PutEnv kv]\<rparr>"

definition fprintf_stderr :: "string \<Rightarrow> world \<Rightarrow> world" where
  "fprintf_stderr txt w = w\<lparr>trace := trace w @ [StderrPrint txt]\<rparr>"

definition jl_init :: "backend \<Rightarrow> world \<Rightarrow> world" where
  "jl_init B w =
     w\<lparr>jl_started := jl_started w \<or> jl_init_ok B (trace w), trace := trace w @ [JlInit]\<rparr>"

definition jl_is_initialized :: "world \<Rightarrow> bool" where
  "jl_is_initialized w = jl_started w"

definition jl_atexit_hook :: "int \<Rightarrow> world \<Rightarrow> world" where
  "jl_atexit_hook status w =
     w\<lparr>jl_started := False, trace := trace w @ [JlAtexitHook status]\<rparr>"

definition jl_exception_occurred :: "world \<Rightarrow> jl_value option" where
  "jl_exception_occurred w = jl_pending w"

definition jl_exception_clear :: "world \<Rightarrow> world" where
  "jl_exception_clear w = w\<lparr>jl_pending := None, trace := trace w @ [JlExceptionClear]\<rparr>"

definition settle :: "jl_outcome \<Rightarrow> event \<Rightarrow> world \<Rightarrow> jl_value option \<times> world" where
  "settle out ev w =
     (case out of
        Returns v \<Rightarrow> (Some v, w\<lparr>jl_pending := None, trace := trace w @ [ev]\<rparr>)
      | Raises e \<Rightarrow> (None, w\<lparr>jl_pending := Some e, trace := trace w @ [ev]\<rparr>))"

definition jl_eval_string :: "backend \<Rightarrow> string \<Rightarrow> world \<Rightarrow> jl_value option \<times> world" where
  "jl_eval_string B cmd w = settle (jl_eval B (trace w) cmd) (JlEvalString cmd) w"

definition jl_call1 :: "backend \<Rightarrow> string \<Rightarrow> string \<Rightarrow> world \<Rightarrow> jl_value option \<times> world" where
  "jl_call1 B f a w = settle (jl_call B (trace w) f a) (JlCall1 f a) w"

text \<open>
  \<^verbatim>\<open>jl_unbox_bool\<close> reads the payload byte of the object it is given and never
  throws: the stored boolean for a \<^verbatim>\<open>Bool\<close>, whatever byte is there otherwise.
\<close>

definition jl_unbox_bool :: "backend \<Rightarrow> jl_value \<Rightarrow> bool" where
  "jl_unbox_bool B v = (case v of JlBool b \<Rightarrow> b | _ \<Rightarrow> jl_raw_byte B v)"

section \<open>Interpreter Lifecycle Manager\<close>

text \<open>
  The members of \<^verbatim>\<open>class JuliaRuntime\<close>. The object is the process-wide singleton, so
  every method takes it and returns it; a \<^verbatim>\<open>const\<close> method only takes it.
\<close>

record JuliaRuntime =
  m_initialized :: bool
  m_juliaModulePath :: string
  m_processStackFunc :: "jl_value option"
  m_validateFitsFunc :: "jl_value option"

definition JuliaRuntime_init :: JuliaRuntime where
  "JuliaRuntime_init =
     \<lparr>m_initialized = False, m_juliaModulePath = [],
      m_processStackFunc = None, m_validateFitsFunc = None\<rparr>"

definition IsInitialized :: "JuliaRuntime \<Rightarrow> bool" where
  "IsInitialized s = m_initialized s"

text \<open>
  What C++ itself can raise in these methods: \<^verbatim>\<open>std::filesystem::current_path()\<close>
  throws when the working directory cannot be read, and \<^verbatim>\<open>jl_unbox_bool\<close> of a
  \<^verbatim>\<open>NULL\<close> pointer is a crash.
\<close>

datatype fault = FilesystemError | NullDereference

definition HandleJuliaException ::
    "backend \<Rightarrow> JuliaRuntime \<times> world \<Rightarrow> JuliaRuntime \<times> world" where
  "HandleJuliaException B = (\<lambda>(s, w).
     case jl_exception_occurred w of
       None \<Rightarrow> (s, w)
     | Some ex \<Rightarrow>
         let (str, w1) = jl_call1 B ''sprint'' ''showerror'' w;
             w2 = (case str of
                     Some (JlString txt) \<Rightarrow>
                       fprintf_stderr (''Julia exception: '' @ c_str txt @ [newline]) w1
                   | _ \<Rightarrow> w1)
         in (s, jl_exception_clear w2))"

definition Shutdown :: "JuliaRuntime \<times> world \<Rightarrow> JuliaRuntime \<times> world" where
  "Shutdown = (\<lambda>(s, w).
     if m_initialized s then (s\<lparr>m_initialized := False\<rparr>, jl_atexit_hook 0 w)
     else (s, w))"

definition LoadBayesianAstroModule ::
    "backend \<Rightarrow> JuliaRuntime \<times> world \<Rightarrow> bool \<times> JuliaRuntime \<times> world" where
  "LoadBayesianAstroModule B = (\<lambda>(s, w).
     let loadCmd = ''push!(LOAD_PATH, '' @ [dquote] @ m_juliaModulePath s @ [dquote] @ '')'';
         (r1, w1) = jl_eval_string B (c_str loadCmd) w
     in if jl_exception_occurred w1 \<noteq> None then
          (let (s1, w2) = HandleJuliaException B (s, w1) in (False, s1, w2))
        else
          let (r2, w2) = jl_eval_string B ''using BayesianAstro'' w1
          in if jl_exception_occurred w2 \<noteq> None then
               (let (s1, w3) = HandleJuliaException B (s, w2) in (False, s1, w3))
             else
               let (baModule, w3) = jl_eval_string B ''BayesianAstro'' w2;
                   s1 = (case baModule of
                           None \<Rightarrow> s
                         | Some m \<Rightarrow>
                             s\<lparr>m_processStackFunc := jl_global B (trace w3) m ''process_stack'',
                               m_validateFitsFunc := jl_global B (trace w3) m ''validate_fits''\<rparr>)
               in (True, s1, w3))"

definition Initialize ::
    "backend \<Rightarrow> string \<Rightarrow> JuliaRuntime \<times> world \<Rightarrow> (fault + bool) \<times> JuliaRuntime \<times> world" where
  "Initialize B juliaHome = (\<lambda>(s, w).
     if m_initialized s then (Inr True, s, w)
     else
       let w1 = (if juliaHome \<noteq> [] then putenv (c_str (''JULIA_HOME='' @ juliaHome)) w else w);
           w2 = jl_init B w1
       in if \<not> jl_is_initialized w2 then (Inr False, s, w2)
          else
            (case fs_current_path B of
               None \<Rightarrow> (Inl FilesystemError, s, w2)
             | Some cwd \<Rightarrow>
                 let s1 = s\<lparr>m_juliaModulePath := cwd @ ''/julia''\<rparr>;
                     (loaded, s2, w3) = LoadBayesianAstroModule B (s1, w2)
                 in if \<not> loaded then
                      (let (s3, w4) = Shutdown (s2, w3) in (Inr False, s3, w4))
                    else (Inr True, s2\<lparr>m_initialized := True\<rparr>, w3)))"

section \<open>Auxiliary queries\<close>

definition IsGPUAvailable :: "backend \<Rightarrow> JuliaRuntime \<Rightarrow> world \<Rightarrow> (fault + bool) \<times> world" where
  "IsGPUAvailable B s w =
     (if \<not> m_initialized s then (Inr False, w)
      else
        let (result, w1) = jl_eval_string B ''BayesianAstro.CUDA_AVAILABLE[]'' w
        in if jl_exception_occurred w1 \<noteq> None then (Inr False, w1)
           else (case result of
                   None \<Rightarrow> (Inl NullDereference, w1)
                 | Some v \<Rightarrow> (Inr (jl_unbox_bool B v), w1)))"

section \<open>Pipeline Invocation Service\<close>

text \<open>
  The progress callback is a \<^verbatim>\<open>std::function\<close> that may be empty. It acts on the
  caller's side only, on a state \<open>'h\<close> of the caller's choosing.
\<close>

type_synonym 'h ProgressCallback = "(int \<Rightarrow> string \<Rightarrow> 'h \<Rightarrow> 'h) option"

definition report :: "'h ProgressCallback \<Rightarrow> int \<Rightarrow> string \<Rightarrow> 'h \<Rightarrow> 'h" where
  "report progressCallback percent status h =
     (case progressCallback of None \<Rightarrow> h | Some f \<Rightarrow> f percent status h)"

definition ProcessStack ::
    "backend \<Rightarrow> string list \<Rightarrow> string \<Rightarrow> string \<Rightarrow> ProcessingConfig \<Rightarrow> 'h ProgressCallback
     \<Rightarrow> JuliaRuntime \<times> world \<times> 'h \<Rightarrow> ProcessingResult \<times> JuliaRuntime \<times> world \<times> 'h" where
  "ProcessStack B inputFiles outputDirectory outputPrefix config progressCallback = (\<lambda>(s, w, h).
     let result = ProcessingResult_init
     in if \<not> m_initialized s then
          (result\<lparr>success := False, errorMessage := ''Julia runtime not initialized''\<rparr>, s, w, h)
        else
          let (filesArray, w1) = jl_eval_string B (c_str (filesArrayCmd inputFiles)) w
          in if jl_exception_occurred w1 \<noteq> None then
               (let (s1, w2) = HandleJuliaException B (s, w1)
                in (result\<lparr>success := False,
                           errorMessage := ''Failed to create input file list''\<rparr>, s1, w2, h))
             else
               let (juliaConfig, w2) =
                     jl_eval_string B (c_str (configCmd (fmt_float B) config)) w1
               in if jl_exception_occurred w2 \<noteq> None then
                    (let (s1, w3) = HandleJuliaException B (s, w2)
                     in (result\<lparr>success := False,
                                errorMessage := ''Failed to create processing config''\<rparr>,
                         s1, w3, h))
                  else
                    let h1 = report progressCallback 0 ''Loading frames...'' h;
                        (r, w3) =
                          jl_eval_string B
                            (c_str (processCmd (fmt_float B) outputDirectory outputPrefix config))
                            w2
                    in if jl_exception_occurred w3 \<noteq> None then
                         (let (s1, w4) = HandleJuliaException B (s, w3)
                          in (result\<lparr>success := False,
                                     errorMessage :=
                                       ''Processing failed - see console for details''\<rparr>,
                              s1, w4, h1))
                       else
                         (result\<lparr>success := True,
                                 fusedImagePath :=
                                   outputDirectory @ ''/'' @ outputPrefix @ ''_fused.fits'',
                                 confidenceMapPath :=
                                   outputDirectory @ ''/'' @ outputPrefix @ ''_confidence.fits''\<rparr>,
                          s, w3, report progressCallback 100 ''Complete'' h1))"

section \<open>Host Adapter\<close>

text \<open>What \<^verbatim>\<open>ExecuteGlobal\<close> sends to the host's console and status monitor, in order.\<close>

datatype host_event =
    ConsoleWriteLn string
  | ConsoleCriticalLn string
  | MonitorSetCallback
  | MonitorInitialize string nat
  | MonitorComplete int

definition statusCallback :: "int \<Rightarrow> string \<Rightarrow> host_event list \<Rightarrow> host_event list" where
  "statusCallback percent msg h = h @ [MonitorComplete percent, ConsoleWriteLn (c_str msg)]"

text \<open>
  \<^verbatim>\<open>ExecuteGlobal\<close> returns its \<^verbatim>\<open>bool\<close>; the local \<^verbatim>\<open>result\<close> it received from
  \<^verbatim>\<open>ProcessStack\<close> is handed out beside it, to be observed.
\<close>

definition ExecuteGlobal ::
    "backend \<Rightarrow> BayesianAstroInstance \<Rightarrow> JuliaRuntime \<times> world \<times> host_event list
     \<Rightarrow> bool \<times> ProcessingResult \<times> JuliaRuntime \<times> world \<times> host_event list" where
  "ExecuteGlobal B inst = (\<lambda>(s, w, h).
     let h1 = h @ [ConsoleWriteLn ''<b>BayesianAstro</b>'',
                   ConsoleWriteLn (''Processing ''
                     @ showInt (sint (word_of_nat (length (p_inputFiles inst)) :: c_int))
                     @ '' frames...'')];
         inputFiles = map c_str (p_inputFiles inst);
         config = buildConfig inst;
         h2 = h1 @ [MonitorSetCallback, MonitorInitialize ''BayesianAstro'' 100];
         (result, s1, w1, h3) =
           ProcessStack B inputFiles (c_str (p_outputDirectory inst)) (c_str (p_outputPrefix inst))
             config (Some statusCallback) (s, w, h2);
         h4 = h3 @ [MonitorComplete 100]
     in if \<not> success result then
          (False, result, s1, w1,
           h4 @ [ConsoleCriticalLn (''** Processing failed: '' @ c_str (errorMessage result))])
        else
          (True, result, s1, w1,
           h4 @ [ConsoleWriteLn (''Fused image: '' @ c_str (fusedImagePath result))]
              @ (if p_generateConfidenceMap inst
                 then [ConsoleWriteLn (''Confidence map: '' @ c_str (confidenceMapPath result))]
                 else [])
              @ [ConsoleWriteLn (''Mean confidence: '' @ fmt_f3 B (meanConfidence result))]))"

section \<open>The encoding the specification asks for\<close>

text \<open>
  The specification's marshaler encodes a string list as a sequence literal
  ``escaping embedded quote and backslash characters''. This is that encoding, written
  from the specification, for comparison with \<open>filesArrayCmd\<close>.
\<close>

definition spec_escape :: "string \<Rightarrow> string" where
  "spec_escape p = concat (map (\<lambda>c. if c = dquote \<or> c = backslash then [backslash, c] else [c]) p)"

fun joinWith :: "string \<Rightarrow> string list \<Rightarrow> string" where
  "joinWith sep [] = []"
| "joinWith sep [x] = x"
| "joinWith sep (x # y # ys) = x @ sep @ joinWith sep (y # ys)"

definition spec_encodeFileList :: "string list \<Rightarrow> string" where
  "spec_encodeFileList files =
     ''String['' @ joinWith '', '' (map (\<lambda>p. [dquote] @ spec_escape p @ [dquote]) files) @ '']''"

text \<open>The shape \<open>filesArrayLoop\<close> has built from index \<open>i\<close> on; \<open>sep\<close> says whether \<open>0 < i\<close>.\<close>

fun quotedFrom :: "bool \<Rightarrow> string list \<Rightarrow> string" where
  "quotedFrom sep [] = []"
| "quotedFrom sep (x # xs) =
     (if sep then '', '' else []) @ [dquote] @ x @ [dquote] @ quotedFrom True xs"

section \<open>Simulated interpreters\<close>

text \<open>
  Concrete interpreters on which the theorems are run: one on which every call
  succeeds, one whose module fails to load, one whose pipeline raises, and one whose
  GPU query raises.
\<close>

definition obliging :: backend where
  "obliging =
     \<lparr>jl_init_ok = (\<lambda>tr. True),
      jl_eval = (\<lambda>tr cmd. Returns (JlBool True)),
      jl_call = (\<lambda>tr f a. Returns (JlString ''MethodError'')),
      jl_global = (\<lambda>tr m name. Some (JlObject 1)),
      jl_raw_byte = (\<lambda>v. False),
      fs_current_path = Some ''/opt/pi/bin'',
      fmt_float = (\<lambda>x. if x = 0x40400000 then ''3'' else ''0.1''),
      fmt_f3 = (\<lambda>x. ''0.000'')\<rparr>"

definition moduleMissing :: backend where
  "moduleMissing =
     obliging\<lparr>jl_eval := (\<lambda>tr cmd. if cmd = ''using BayesianAstro''
                                    then Raises (JlObject 7) else Returns (JlBool True))\<rparr>"

definition pipelineFails :: backend where
  "pipelineFails =
     obliging\<lparr>jl_eval := (\<lambda>tr cmd. if take 18 cmd = ''process_directory(''
                                    then Raises (JlObject 9) else Returns (JlBool True))\<rparr>"

definition gpuQueryFails :: backend where
  "gpuQueryFails = obliging\<lparr>jl_eval := (\<lambda>tr cmd. Raises (JlObject 3))\<rparr>"

definition freshWorld :: world where
  "freshWorld = \<lparr>jl_started = False, jl_pending = None, trace = []\<rparr>"

definition runningWorld :: world where
  "runningWorld = \<lparr>jl_started = True, jl_pending = None, trace = [JlInit]\<rparr>"

definition readyRuntime :: JuliaRuntime where
  "readyRuntime = JuliaRuntime_init\<lparr>m_initialized := True, m_juliaModulePath := ''/opt/pi/bin/julia''\<rparr>"

text \<open>The instance as its constructor leaves it, given two frames and an output directory.\<close>

definition demoInstance :: BayesianAstroInstance where
  "demoInstance =
     \<lparr>p_fusionStrategy = BA_Default, p_inputFiles = [''/data/a.fits'', ''/data/b.fits''],
      p_outlierSigma = 0x40400000, p_confidenceThreshold = 0x3DCCCCCD, p_useGPU = True,
      p_generateConfidenceMap = True, p_outputDirectory = ''/tmp/x'',
      p_outputPrefix = ''bayesian''\<rparr>"

text \<open>A progress callback that keeps every call it receives.\<close>

definition recordProgress :: "int \<Rightarrow> string \<Rightarrow> (int \<times> string) list \<Rightarrow> (int \<times> string) list" where
  "recordProgress percent status calls = calls @ [(percent, status)]"

definition returns :: "jl_outcome \<Rightarrow> bool" where
  "returns out = (case out of Returns v \<Rightarrow> True | Raises e \<Rightarrow> False)"

text \<open>
  The run in which the two marshalling commands evaluate and the pipeline call raises:
  what the interpreter answers at each of the three \<^verbatim>\<open>jl_eval_string\<close> calls of
  \<open>ProcessStack\<close>, started in world \<open>w\<close>.
\<close>

definition pipeline_raises ::
    "backend \<Rightarrow> world \<Rightarrow> string list \<Rightarrow> string \<Rightarrow> string \<Rightarrow> ProcessingConfig \<Rightarrow> bool" where
  "pipeline_raises B w inputFiles outputDirectory outputPrefix config =
     (let c1 = c_str (filesArrayCmd inputFiles);
          c2 = c_str (configCmd (fmt_float B) config);
          c3 = c_str (processCmd (fmt_float B) outputDirectory outputPrefix config)
      in returns (jl_eval B (trace w) c1)
         \<and> returns (jl_eval B (trace w @ [JlEvalString c1]) c2)
         \<and> \<not> returns (jl_eval B (trace w @ [JlEvalString c1, JlEvalString c2]) c3))"

section \<open>Strategy translation at the boundary\<close>

text \<open>
  C1 (as amended). The translation the Host Adapter applies when it builds the
  \<open>ProcessingConfig\<close> adds one to the native index: the native items 0, 1, 2, 3
  (MLE, ConfidenceWeighted, Lucky, MultiScale) become the foreign values 1, 2, 3, 4, which
  are the foreign enumeration's items of the same names. The native default,
  ConfidenceWeighted, is index 1 and becomes 2.
\<close>

theorem strategy_translation:
  "fusionStrategy (buildConfig inst) = p_fusionStrategy inst + 1
   \<and> map (\<lambda>k. fusionStrategy (buildConfig (inst\<lparr>p_fusionStrategy := k\<rparr>)))
        [BA_MLE, BA_ConfidenceWeighted, BA_Lucky, BA_MultiScale]
     = [FS_MLE, FS_ConfidenceWeighted, FS_Lucky, FS_MultiScale]
   \<and> map (\<lambda>k. sint (fusionStrategy (buildConfig (inst\<lparr>p_fusionStrategy := k\<rparr>)))) [0, 1, 2, 3]
     = [1, 2, 3, 4]"
  by (simp add: buildConfig_def BA_MLE_def BA_ConfidenceWeighted_def BA_Lucky_def
        BA_MultiScale_def FS_MLE_def FS_ConfidenceWeighted_def FS_Lucky_def FS_MultiScale_def)

text \<open>
  C1 as stated asks for native index 0 to become the foreign value 2. On the code it
  becomes 1.
\<close>

theorem strategy_translation_counterexample:
  "fusionStrategy (buildConfig (demoInstance\<lparr>p_fusionStrategy := 0\<rparr>)) = 1
   \<and> fusionStrategy (buildConfig (demoInstance\<lparr>p_fusionStrategy := 0\<rparr>)) \<noteq> 2"
  by (simp add: buildConfig_def)

section \<open>The file list literal\<close>

lemma filesArrayLoop_from:
  "filesArrayLoop (pre @ xs) (length pre) out = out @ quotedFrom (pre \<noteq> []) xs"
proof (induction xs arbitrary: pre out)
  case Nil
  show ?case by (simp add: filesArrayLoop.simps)
next
  case (Cons x xs)
  have "filesArrayLoop (pre @ x # xs) (length pre) out =
        filesArrayLoop ((pre @ [x]) @ xs) (length (pre @ [x]))
          ((if pre \<noteq> [] then out @ '', '' else out) @ [dquote] @ x @ [dquote])"
    by (subst filesArrayLoop.simps) simp
  also have "\<dots> = ((if pre \<noteq> [] then out @ '', '' else out) @ [dquote] @ x @ [dquote])
                   @ quotedFrom True xs"
    using Cons.IH [of "pre @ [x]"] by simp
  finally show ?case by simp
qed

lemma quotedFrom_True:
  "quotedFrom True xs = concat (map (\<lambda>p. '', '' @ [dquote] @ p @ [dquote]) xs)"
  by (induction xs) simp_all

lemma joinWith_Cons:
  "joinWith sep (x # xs) = x @ concat (map (\<lambda>y. sep @ y) xs)"
  by (induction xs arbitrary: x) simp_all

lemma quotedFrom_False:
  "quotedFrom False xs = joinWith '', '' (map (\<lambda>p. [dquote] @ p @ [dquote]) xs)"
proof (cases xs)
  case Nil
  then show ?thesis by simp
next
  case (Cons x ys)
  then show ?thesis
    by (simp add: joinWith_Cons quotedFrom_True comp_def)
qed

lemma filesArrayCmd_verbatim:
  "filesArrayCmd files =
     ''String['' @ joinWith '', '' (map (\<lambda>p. [dquote] @ p @ [dquote]) files) @ '']''"
  using filesArrayLoop_from [of "[]" files "''String[''"]
  by (simp add: filesArrayCmd_def quotedFrom_False)

lemma spec_escape_plain:
  "dquote \<notin> set p \<Longrightarrow> backslash \<notin> set p \<Longrightarrow> spec_escape p = p"
  unfolding spec_escape_def by (induction p) auto

text \<open>
  C2 (as amended). \<open>ProcessStack\<close> encodes the input file list as \<^verbatim>\<open>String[\<close>, then
  each path between two quote characters with its bytes unchanged, the paths separated by
  a comma and a space, then \<^verbatim>\<open>]\<close>. Nothing is escaped. For every list in which no
  path contains a quote or a backslash this is the escaped encoding the specification
  asks for.
\<close>

theorem file_list_literal:
  "filesArrayCmd files =
     ''String['' @ joinWith '', '' (map (\<lambda>p. [dquote] @ p @ [dquote]) files) @ '']''
   \<and> ((\<forall>p \<in> set files. dquote \<notin> set p \<and> backslash \<notin> set p)
        \<longrightarrow> filesArrayCmd files = spec_encodeFileList files)"
proof (intro conjI impI)
  show "filesArrayCmd files =
     ''String['' @ joinWith '', '' (map (\<lambda>p. [dquote] @ p @ [dquote]) files) @ '']''"
    by (rule filesArrayCmd_verbatim)
next
  assume plain: "\<forall>p \<in> set files. dquote \<notin> set p \<and> backslash \<notin> set p"
  then have "map (\<lambda>p. [dquote] @ spec_escape p @ [dquote]) files
            = map (\<lambda>p. [dquote] @ p @ [dquote]) files"
    by (simp add: spec_escape_plain)
  then show "filesArrayCmd files = spec_encodeFileList files"
    by (simp only: filesArrayCmd_verbatim spec_encodeFileList_def)
qed

theorem file_list_literal_witness:
  "dquote \<notin> set ''/data/a.fits'' \<and> backslash \<notin> set ''/data/a.fits''
   \<and> dquote \<notin> set ''/data/b.fits'' \<and> backslash \<notin> set ''/data/b.fits''
   \<and> filesArrayCmd [''/data/a.fits'', ''/data/b.fits'']
       = ''String['' @ [dquote] @ ''/data/a.fits'' @ [dquote] @ '', ''
           @ [dquote] @ ''/data/b.fits'' @ [dquote] @ '']''
   \<and> filesArrayCmd [''/data/a.fits'', ''/data/b.fits'']
       = spec_encodeFileList [''/data/a.fits'', ''/data/b.fits'']"
  using file_list_literal [of "[''/data/a.fits'', ''/data/b.fits'']"]
  by (simp add: dquote_def backslash_def spec_encodeFileList_def spec_escape_def)

text \<open>
  C2 as stated asks for every quote of a path to be escaped. The path \<^verbatim>\<open>a"b\<close> is
  interpolated as it is: its quote stands bare in the literal, which is not the escaped
  encoding.
\<close>

theorem file_list_unescaped_counterexample:
  "filesArrayCmd [''a'' @ [dquote] @ ''b'']
     = ''String['' @ [dquote] @ ''a'' @ [dquote] @ ''b'' @ [dquote] @ '']''
   \<and> spec_encodeFileList [''a'' @ [dquote] @ ''b'']
       = ''String['' @ [dquote] @ ''a'' @ [backslash, dquote] @ ''b'' @ [dquote] @ '']''
   \<and> filesArrayCmd [''a'' @ [dquote] @ ''b''] \<noteq> spec_encodeFileList [''a'' @ [dquote] @ ''b'']"
  by (simp add: filesArrayCmd_def filesArrayLoop.simps spec_encodeFileList_def spec_escape_def
        dquote_def backslash_def)

section \<open>Facts about the interpreter calls\<close>

lemmas run_defs =
  ProcessStack_def IsInitialized_def Let_def
  jl_eval_string_def settle_def jl_exception_occurred_def returns_def
  HandleJuliaException_def jl_call1_def jl_exception_clear_def fprintf_stderr_def
  JuliaRuntime_init_def ProcessingConfig_init_def ProcessingResult_init_def processCmd_def
  configCmd_def c_str_def filesArrayCmd_def filesArrayLoop.simps dquote_def report_def
  recordProgress_def FS_ConfidenceWeighted_def showInt_def decimal.simps digit_def newline_def

lemma settle_trace: "trace (snd (settle out ev w)) = trace w @ [ev]"
  by (simp add: settle_def split: jl_outcome.splits)

lemma eval_trace: "trace (snd (jl_eval_string B cmd w)) = trace w @ [JlEvalString cmd]"
  by (simp add: jl_eval_string_def settle_trace)

lemma call_trace: "trace (snd (jl_call1 B f a w)) = trace w @ [JlCall1 f a]"
  by (simp add: jl_call1_def settle_trace)

lemma HandleJuliaException_object: "fst (HandleJuliaException B x) = fst x"
  by (cases x) (simp add: HandleJuliaException_def Let_def split_beta split: option.splits)

lemma HandleJuliaException_clears:
  "jl_exception_occurred (snd (HandleJuliaException B x)) = None"
  by (cases x)
    (simp add: HandleJuliaException_def Let_def split_beta jl_exception_occurred_def
       jl_exception_clear_def split: option.splits)

lemma HandleJuliaException_teardowns:
  "count_list (trace (snd (HandleJuliaException B x))) (JlAtexitHook k)
     = count_list (trace (snd x)) (JlAtexitHook k)"
  by (cases x)
    (simp add: HandleJuliaException_def Let_def split_beta jl_exception_clear_def
       fprintf_stderr_def call_trace split: option.splits jl_value.splits)

lemma LoadBayesianAstroModule_flag:
  "m_initialized (fst (snd (LoadBayesianAstroModule B x))) = m_initialized (fst x)"
  by (cases x)
    (simp add: LoadBayesianAstroModule_def Let_def split_beta HandleJuliaException_object
       split: option.splits)

lemma LoadBayesianAstroModule_teardowns:
  "count_list (trace (snd (snd (LoadBayesianAstroModule B x)))) (JlAtexitHook k)
     = count_list (trace (snd x)) (JlAtexitHook k)"
  by (cases x)
    (simp add: LoadBayesianAstroModule_def Let_def split_beta HandleJuliaException_teardowns
       eval_trace)

text \<open>
  No path through \<open>Initialize\<close> reaches \<^verbatim>\<open>jl_atexit_hook\<close>: the only call of
  \<open>Shutdown\<close> is made while \<open>m_initialized\<close> is still false.
\<close>

lemma Initialize_never_tears_down:
  "count_list (trace (snd (snd (Initialize B juliaHome (s, w))))) (JlAtexitHook k)
     = count_list (trace w) (JlAtexitHook k)"
  by (simp add: Initialize_def Let_def split_beta Shutdown_def LoadBayesianAstroModule_flag
        LoadBayesianAstroModule_teardowns jl_init_def putenv_def split: option.splits)

lemma ProcessStack_object:
  "fst (snd (ProcessStack B inputFiles outputDirectory outputPrefix config progressCallback x))
     = fst x"
  by (cases x)
    (simp add: ProcessStack_def Let_def split_beta HandleJuliaException_object)

lemma ProcessStack_confidence:
  "success (fst (ProcessStack B inputFiles outputDirectory outputPrefix config progressCallback x))
   \<Longrightarrow> confidenceMapPath (fst (ProcessStack B inputFiles outputDirectory outputPrefix config
          progressCallback x))
        = outputDirectory @ ''/'' @ outputPrefix @ ''_confidence.fits''"
  by (cases x)
    (simp add: ProcessStack_def Let_def split_beta ProcessingResult_init_def split: if_splits)

lemma ProcessStack_host:
  "snd (snd (snd (ProcessStack B inputFiles outputDirectory outputPrefix config
      (Some statusCallback) (s, w, h))))
   \<in> {h, statusCallback 0 ''Loading frames...'' h,
       statusCallback 100 ''Complete'' (statusCallback 0 ''Loading frames...'' h)}"
  by (simp add: ProcessStack_def Let_def split_beta report_def)

section \<open>Initialization failure\<close>

text \<open>
  C3. When the module fails to load after the interpreter has started, \<open>Initialize\<close>
  returns failure and \<open>IsInitialized\<close> stays false, but the interpreter it started is
  not torn down: \<open>Shutdown\<close> is called and does nothing, since it tears down only when
  \<open>m_initialized\<close> is set. On the interpreter whose \<^verbatim>\<open>using BayesianAstro\<close> raises,
  the run ends with the interpreter still started and no \<^verbatim>\<open>jl_atexit_hook\<close> issued.
\<close>

theorem Initialize_module_load_failure:
  "fst (Initialize moduleMissing [] (JuliaRuntime_init, freshWorld)) = Inr False
   \<and> \<not> IsInitialized (fst (snd (Initialize moduleMissing [] (JuliaRuntime_init, freshWorld))))
   \<and> jl_is_initialized (snd (snd (Initialize moduleMissing [] (JuliaRuntime_init, freshWorld))))
   \<and> JlInit \<in> set (trace (snd (snd (Initialize moduleMissing [] (JuliaRuntime_init, freshWorld)))))
   \<and> JlAtexitHook 0
       \<notin> set (trace (snd (snd (Initialize moduleMissing [] (JuliaRuntime_init, freshWorld)))))"
  by (simp add: Initialize_def LoadBayesianAstroModule_def Shutdown_def jl_init_def
        jl_is_initialized_def moduleMissing_def obliging_def freshWorld_def run_defs)

section \<open>Invocation before initialization\<close>

text \<open>
  C4. Called while the runtime is not initialized, \<open>ProcessStack\<close> returns a result
  with \<open>success = False\<close> and a non-empty error message, leaves the caller's state as
  it was whatever the progress callback is (a callback that records its calls has
  recorded none), and leaves the interpreter's world as it was: no foreign call.
\<close>

theorem ProcessStack_not_initialized:
  "\<not> IsInitialized s \<Longrightarrow>
     (case ProcessStack B inputFiles outputDirectory outputPrefix config progressCallback (s, w, h) of
        (result, s', w', h') \<Rightarrow>
          success result = False \<and> errorMessage result \<noteq> [] \<and> h' = h \<and> w' = w \<and> s' = s)
     \<and> snd (snd (snd (ProcessStack B inputFiles outputDirectory outputPrefix config
           (Some recordProgress) (s, w, [])))) = []"
  by (simp add: ProcessStack_def IsInitialized_def Let_def)

theorem ProcessStack_not_initialized_witness:
  "\<not> IsInitialized JuliaRuntime_init
   \<and> success (fst (ProcessStack obliging [''/data/a.fits''] ''/tmp/x'' ''run1'' ProcessingConfig_init
        (Some recordProgress) (JuliaRuntime_init, freshWorld, []))) = False
   \<and> errorMessage (fst (ProcessStack obliging [''/data/a.fits''] ''/tmp/x'' ''run1''
        ProcessingConfig_init (Some recordProgress) (JuliaRuntime_init, freshWorld, [])))
       = ''Julia runtime not initialized''
   \<and> snd (snd (ProcessStack obliging [''/data/a.fits''] ''/tmp/x'' ''run1'' ProcessingConfig_init
        (Some recordProgress) (JuliaRuntime_init, freshWorld, []))) = (freshWorld, [])"
  using ProcessStack_not_initialized [where s = JuliaRuntime_init and B = obliging
      and inputFiles = "[''/data/a.fits'']" and outputDirectory = "''/tmp/x''"
      and outputPrefix = "''run1''" and config = ProcessingConfig_init
      and progressCallback = "Some recordProgress" and w = freshWorld and h = "[]"]
  by (simp add: ProcessStack_def IsInitialized_def JuliaRuntime_init_def Let_def)

section \<open>Foreign failure during an invocation\<close>

text \<open>
  C5. If the runtime is initialized and the foreign pipeline raises during a
  \<open>ProcessStack\<close> invocation, the result has \<open>success = False\<close> and a non-empty
  error message, the pending foreign exception has been cleared (the last thing done to
  the interpreter is \<^verbatim>\<open>jl_exception_clear\<close>), and \<open>IsInitialized\<close> is still true.
\<close>

theorem ProcessStack_foreign_failure:
  assumes "IsInitialized s"
    and "pipeline_raises B w inputFiles outputDirectory outputPrefix config"
  shows "case ProcessStack B inputFiles outputDirectory outputPrefix config progressCallback (s, w, h) of
           (result, s', w', h') \<Rightarrow>
             success result = False \<and> errorMessage result \<noteq> []
             \<and> jl_exception_occurred w' = None \<and> last (trace w') = JlExceptionClear
             \<and> IsInitialized s'"
  using assms
  by (auto simp add: ProcessStack_def pipeline_raises_def IsInitialized_def Let_def
        jl_eval_string_def settle_def jl_exception_occurred_def returns_def
        HandleJuliaException_def jl_call1_def jl_exception_clear_def fprintf_stderr_def
        split: prod.splits jl_outcome.splits option.splits jl_value.splits)

text \<open>
  On the interpreter whose pipeline call raises: the failed result, the cleared
  exception, and a following invocation that goes through once the pipeline works.
\<close>

theorem ProcessStack_foreign_failure_witness:
  "IsInitialized readyRuntime
   \<and> pipeline_raises pipelineFails runningWorld [''/data/a.fits''] ''/tmp/x'' ''run1''
        ProcessingConfig_init
   \<and> success (fst (ProcessStack pipelineFails [''/data/a.fits''] ''/tmp/x'' ''run1''
        ProcessingConfig_init (Some recordProgress) (readyRuntime, runningWorld, []))) = False
   \<and> errorMessage (fst (ProcessStack pipelineFails [''/data/a.fits''] ''/tmp/x'' ''run1''
        ProcessingConfig_init (Some recordProgress) (readyRuntime, runningWorld, [])))
       = ''Processing failed - see console for details''
   \<and> IsInitialized (fst (snd (ProcessStack pipelineFails [''/data/a.fits''] ''/tmp/x'' ''run1''
        ProcessingConfig_init (Some recordProgress) (readyRuntime, runningWorld, []))))
   \<and> jl_exception_occurred (fst (snd (snd (ProcessStack pipelineFails [''/data/a.fits''] ''/tmp/x''
        ''run1'' ProcessingConfig_init (Some recordProgress) (readyRuntime, runningWorld, [])))))
       = None
   \<and> success (fst (ProcessStack obliging [''/data/a.fits''] ''/tmp/x'' ''run1''
        ProcessingConfig_init (Some recordProgress)
        (snd (ProcessStack pipelineFails [''/data/a.fits''] ''/tmp/x'' ''run1''
           ProcessingConfig_init (Some recordProgress) (readyRuntime, runningWorld, [])))))"
  using ProcessStack_foreign_failure [where s = readyRuntime and B = pipelineFails
      and inputFiles = "[''/data/a.fits'']" and outputDirectory = "''/tmp/x''"
      and outputPrefix = "''run1''" and config = ProcessingConfig_init
      and progressCallback = "Some recordProgress" and w = runningWorld and h = "[]"]
  by (simp add: pipeline_raises_def readyRuntime_def runningWorld_def pipelineFails_def
        obliging_def run_defs)

section \<open>Artifact paths\<close>

text \<open>
  C6. For every successful \<open>ProcessStack\<close> invocation with output directory \<open>D\<close> and
  output prefix \<open>P\<close>, the fused image path is \<open>D\<close>, a slash, \<open>P\<close> and \<^verbatim>\<open>_fused.fits\<close>,
  and the confidence map path is \<open>D\<close>, a slash, \<open>P\<close> and \<^verbatim>\<open>_confidence.fits\<close>.
\<close>

theorem ProcessStack_paths:
  "case ProcessStack B inputFiles outputDirectory outputPrefix config progressCallback (s, w, h) of
     (result, s', w', h') \<Rightarrow>
       success result \<longrightarrow>
         fusedImagePath result = outputDirectory @ ''/'' @ outputPrefix @ ''_fused.fits''
         \<and> confidenceMapPath result = outputDirectory @ ''/'' @ outputPrefix @ ''_confidence.fits''"
  by (simp add: ProcessStack_def Let_def split_beta ProcessingResult_init_def)

theorem ProcessStack_paths_witness:
  "success (fst (ProcessStack obliging [''/data/a.fits''] ''/tmp/x'' ''run1''
        ProcessingConfig_init (Some recordProgress) (readyRuntime, runningWorld, [])))
   \<and> fusedImagePath (fst (ProcessStack obliging [''/data/a.fits''] ''/tmp/x'' ''run1''
        ProcessingConfig_init (Some recordProgress) (readyRuntime, runningWorld, [])))
       = ''/tmp/x/run1_fused.fits''
   \<and> confidenceMapPath (fst (ProcessStack obliging [''/data/a.fits''] ''/tmp/x'' ''run1''
        ProcessingConfig_init (Some recordProgress) (readyRuntime, runningWorld, [])))
       = ''/tmp/x/run1_confidence.fits''"
  using ProcessStack_paths [where B = obliging
      and inputFiles = "[''/data/a.fits'']" and outputDirectory = "''/tmp/x''"
      and outputPrefix = "''run1''" and config = ProcessingConfig_init
      and progressCallback = "Some recordProgress" and s = readyRuntime and w = runningWorld
      and h = "[]"]
  by (simp add: run_defs readyRuntime_def runningWorld_def obliging_def)

section \<open>The confidence map path and the request flag\<close>

text \<open>
  C7 (as amended). \<open>ProcessingConfig\<close> has no generate-confidence-map field and the
  adapter forwards none: the configuration and the result of \<open>ExecuteGlobal\<close> are the
  same whatever \<open>p_generateConfidenceMap\<close> is. Every result of a successful invocation
  carries the confidence map path, requested or not. The flag decides one thing: on
  success, started from an empty console, the adapter prints the confidence map line if
  and only if the flag is set.
\<close>

theorem confidence_map_regardless:
  "(case ExecuteGlobal B inst (s, w, h) of
      (ok, result, s', w', h') \<Rightarrow>
        ok = success result
        \<and> (success result \<longrightarrow>
             confidenceMapPath result
               = c_str (p_outputDirectory inst) @ ''/'' @ c_str (p_outputPrefix inst)
                   @ ''_confidence.fits''
             \<and> confidenceMapPath result \<noteq> []))
   \<and> buildConfig (inst\<lparr>p_generateConfidenceMap := b\<rparr>) = buildConfig inst
   \<and> fst (snd (ExecuteGlobal B (inst\<lparr>p_generateConfidenceMap := b\<rparr>) (s, w, h)))
       = fst (snd (ExecuteGlobal B inst (s, w, h)))
   \<and> (case ExecuteGlobal B inst (s, w, []) of
        (ok, result, s', w', h') \<Rightarrow>
          ok \<longrightarrow> (ConsoleWriteLn (''Confidence map: '' @ c_str (confidenceMapPath result)) \<in> set h'
                   \<longleftrightarrow> p_generateConfidenceMap inst))"
proof (intro conjI)
  show "case ExecuteGlobal B inst (s, w, h) of
      (ok, result, s', w', h') \<Rightarrow>
        ok = success result
        \<and> (success result \<longrightarrow>
             confidenceMapPath result
               = c_str (p_outputDirectory inst) @ ''/'' @ c_str (p_outputPrefix inst)
                   @ ''_confidence.fits''
             \<and> confidenceMapPath result \<noteq> [])"
    by (simp add: ExecuteGlobal_def Let_def split_beta ProcessStack_confidence)
  show cfg: "buildConfig (inst\<lparr>p_generateConfidenceMap := b\<rparr>) = buildConfig inst"
    by (simp add: buildConfig_def)
  show "fst (snd (ExecuteGlobal B (inst\<lparr>p_generateConfidenceMap := b\<rparr>) (s, w, h)))
       = fst (snd (ExecuteGlobal B inst (s, w, h)))"
    by (simp add: ExecuteGlobal_def Let_def split_beta cfg)
  show "case ExecuteGlobal B inst (s, w, []) of
        (ok, result, s', w', h') \<Rightarrow>
          ok \<longrightarrow> (ConsoleWriteLn (''Confidence map: '' @ c_str (confidenceMapPath result)) \<in> set h'
                   \<longleftrightarrow> p_generateConfidenceMap inst)"
    using ProcessStack_host [of B "map c_str (p_inputFiles inst)" "c_str (p_outputDirectory inst)"
        "c_str (p_outputPrefix inst)" "buildConfig inst" s w
        "[ConsoleWriteLn ''<b>BayesianAstro</b>'',
          ConsoleWriteLn (''Processing ''
             @ showInt (sint (word_of_nat (length (p_inputFiles inst)) :: c_int)) @ '' frames...''),
          MonitorSetCallback, MonitorInitialize ''BayesianAstro'' 100]"]
    by (auto simp add: ExecuteGlobal_def Let_def split_beta statusCallback_def c_str_def)
qed

theorem confidence_map_regardless_witness:
  "fst (ExecuteGlobal obliging demoInstance (readyRuntime, runningWorld, []))
   \<and> success (fst (snd (ExecuteGlobal obliging demoInstance (readyRuntime, runningWorld, []))))
   \<and> confidenceMapPath (fst (snd (ExecuteGlobal obliging demoInstance
        (readyRuntime, runningWorld, []))))
       = ''/tmp/x/bayesian_confidence.fits''
   \<and> p_generateConfidenceMap demoInstance
   \<and> ConsoleWriteLn ''Confidence map: /tmp/x/bayesian_confidence.fits''
       \<in> set (snd (snd (snd (snd (ExecuteGlobal obliging demoInstance
            (readyRuntime, runningWorld, []))))))"
  using confidence_map_regardless [where B = obliging and inst = demoInstance and s = readyRuntime
      and w = runningWorld and h = "[]" and b = False]
  by (simp add: ExecuteGlobal_def demoInstance_def buildConfig_def statusCallback_def BA_Default_def
        BA_ConfidenceWeighted_def readyRuntime_def runningWorld_def obliging_def run_defs)

text \<open>
  C7 as stated asks for a result without a confidence map path when the map was not
  requested. With the flag off, the successful result still carries the path.
\<close>

theorem confidence_map_unrequested_counterexample:
  "\<not> p_generateConfidenceMap (demoInstance\<lparr>p_generateConfidenceMap := False\<rparr>)
   \<and> success (fst (snd (ExecuteGlobal obliging (demoInstance\<lparr>p_generateConfidenceMap := False\<rparr>)
        (readyRuntime, runningWorld, []))))
   \<and> confidenceMapPath (fst (snd (ExecuteGlobal obliging
        (demoInstance\<lparr>p_generateConfidenceMap := False\<rparr>) (readyRuntime, runningWorld, []))))
       = ''/tmp/x/bayesian_confidence.fits''
   \<and> confidenceMapPath (fst (snd (ExecuteGlobal obliging
        (demoInstance\<lparr>p_generateConfidenceMap := False\<rparr>) (readyRuntime, runningWorld, []))))
       \<noteq> []"
  by (simp add: ExecuteGlobal_def demoInstance_def buildConfig_def statusCallback_def BA_Default_def
        BA_ConfidenceWeighted_def readyRuntime_def runningWorld_def obliging_def run_defs)

section \<open>Idempotence of the lifecycle\<close>

text \<open>
  C8. \<open>Initialize\<close> on a runtime that is already initialized returns true and leaves
  the runtime and the interpreter's world as they were: no interpreter start, no module
  load. \<open>Shutdown\<close> twice is \<open>Shutdown\<close> once, \<open>Shutdown\<close> on a runtime that is not
  initialized changes nothing, and two calls in a row add at most one
  \<^verbatim>\<open>jl_atexit_hook\<close> to what the interpreter has seen.
\<close>

theorem lifecycle_idempotent:
  "(IsInitialized s \<longrightarrow> Initialize B juliaHome (s, w) = (Inr True, s, w))
   \<and> Shutdown (Shutdown (s, w)) = Shutdown (s, w)
   \<and> (\<not> IsInitialized s \<longrightarrow> Shutdown (s, w) = (s, w))
   \<and> count_list (trace (snd (Shutdown (Shutdown (s, w))))) (JlAtexitHook 0)
       \<le> count_list (trace w) (JlAtexitHook 0) + 1"
  by (simp add: Initialize_def Shutdown_def IsInitialized_def jl_atexit_hook_def)

theorem lifecycle_idempotent_witness:
  "IsInitialized readyRuntime
   \<and> Initialize obliging ''/opt/julia'' (readyRuntime, runningWorld)
       = (Inr True, readyRuntime, runningWorld)
   \<and> \<not> IsInitialized JuliaRuntime_init
   \<and> Shutdown (JuliaRuntime_init, freshWorld) = (JuliaRuntime_init, freshWorld)
   \<and> Shutdown (Shutdown (readyRuntime, runningWorld)) = Shutdown (readyRuntime, runningWorld)
   \<and> trace (snd (Shutdown (Shutdown (readyRuntime, runningWorld)))) = [JlInit, JlAtexitHook 0]"
  using lifecycle_idempotent [where s = readyRuntime and B = obliging
      and juliaHome = "''/opt/julia''" and w = runningWorld]
    lifecycle_idempotent [where s = JuliaRuntime_init and B = obliging
      and juliaHome = "''/opt/julia''" and w = freshWorld]
  by (simp add: IsInitialized_def readyRuntime_def JuliaRuntime_init_def Shutdown_def
        jl_atexit_hook_def runningWorld_def)

section \<open>The GPU query\<close>

text \<open>
  C9. \<open>IsGPUAvailable\<close> returns a boolean in every state, for every interpreter: it
  never ends in a fault. It returns false when the runtime is not initialized (and then
  asks the interpreter nothing), and false when the query raises.
\<close>

theorem IsGPUAvailable_total:
  "(\<exists>b. fst (IsGPUAvailable B s w) = Inr b)
   \<and> (\<not> IsInitialized s \<longrightarrow> IsGPUAvailable B s w = (Inr False, w))
   \<and> (IsInitialized s \<and> \<not> returns (jl_eval B (trace w) ''BayesianAstro.CUDA_AVAILABLE[]'')
        \<longrightarrow> fst (IsGPUAvailable B s w) = Inr False)"
  by (auto simp add: IsGPUAvailable_def IsInitialized_def Let_def jl_eval_string_def settle_def
        jl_exception_occurred_def returns_def split: prod.splits jl_outcome.splits option.splits)

theorem IsGPUAvailable_total_witness:
  "\<not> IsInitialized JuliaRuntime_init
   \<and> IsGPUAvailable obliging JuliaRuntime_init freshWorld = (Inr False, freshWorld)
   \<and> IsInitialized readyRuntime
   \<and> \<not> returns (jl_eval gpuQueryFails (trace runningWorld) ''BayesianAstro.CUDA_AVAILABLE[]'')
   \<and> fst (IsGPUAvailable gpuQueryFails readyRuntime runningWorld) = Inr False
   \<and> fst (IsGPUAvailable obliging readyRuntime runningWorld) = Inr True"
  using IsGPUAvailable_total [where s = JuliaRuntime_init and B = obliging and w = freshWorld]
    IsGPUAvailable_total [where s = readyRuntime and B = gpuQueryFails and w = runningWorld]
  by (simp add: IsInitialized_def readyRuntime_def JuliaRuntime_init_def IsGPUAvailable_def
        gpuQueryFails_def obliging_def returns_def jl_eval_string_def settle_def
        jl_exception_occurred_def jl_unbox_bool_def)

section \<open>The invocation and the lifecycle state\<close>

text \<open>
  C10. \<open>ProcessStack\<close> never changes the lifecycle state: for every interpreter, every
  argument and every starting state, whatever the outcome, \<open>IsInitialized\<close> after the
  call is what it was before.
\<close>

theorem ProcessStack_keeps_lifecycle:
  "IsInitialized (fst (snd (ProcessStack B inputFiles outputDirectory outputPrefix config
      progressCallback (s, w, h)))) = IsInitialized s"
  by (simp add: ProcessStack_object IsInitialized_def)

text \<open>The rejected call, the failed run and the successful run, each on its interpreter.\<close>

theorem ProcessStack_keeps_lifecycle_witness:
  "IsInitialized (fst (snd (ProcessStack obliging [''/data/a.fits''] ''/tmp/x'' ''run1''
      ProcessingConfig_init (Some recordProgress) (JuliaRuntime_init, freshWorld, []))))
     = False
   \<and> IsInitialized (fst (snd (ProcessStack pipelineFails [''/data/a.fits''] ''/tmp/x'' ''run1''
      ProcessingConfig_init (Some recordProgress) (readyRuntime, runningWorld, []))))
     = True
   \<and> IsInitialized (fst (snd (ProcessStack obliging [''/data/a.fits''] ''/tmp/x'' ''run1''
      ProcessingConfig_init (Some recordProgress) (readyRuntime, runningWorld, []))))
     = True"
  using ProcessStack_keeps_lifecycle [where B = obliging and inputFiles = "[''/data/a.fits'']"
      and outputDirectory = "''/tmp/x''" and outputPrefix = "''run1''"
      and config = ProcessingConfig_init and progressCallback = "Some recordProgress"
      and s = JuliaRuntime_init and w = freshWorld and h = "[]"]
    ProcessStack_keeps_lifecycle [where B = pipelineFails and inputFiles = "[''/data/a.fits'']"
      and outputDirectory = "''/tmp/x''" and outputPrefix = "''run1''"
      and config = ProcessingConfig_init and progressCallback = "Some recordProgress"
      and s = readyRuntime and w = runningWorld and h = "[]"]
    ProcessStack_keeps_lifecycle [where B = obliging and inputFiles = "[''/data/a.fits'']"
      and outputDirectory = "''/tmp/x''" and outputPrefix = "''run1''"
      and config = ProcessingConfig_init and progressCallback = "Some recordProgress"
      and s = readyRuntime and w = runningWorld and h = "[]"]
  by (simp add: IsInitialized_def readyRuntime_def JuliaRuntime_init_def)

end
